theory Spec2Isabelle
  imports Complex_Main "HOL-Library.Word"
begin

unbundle bit_operations_syntax

section \<open>Python values and the interpreter's primitives\<close>

text \<open>
  The plugin library \<^verbatim>\<open>lib/osc_lib.py\<close> is dynamically typed: the host passes
  integers, floats, booleans and strings to an action, and the library converts between
  them with \<^verbatim>\<open>int\<close>, \<^verbatim>\<open>float\<close>, \<^verbatim>\<open>str\<close> and \<^verbatim>\<open>bool\<close>.
  A Python value is a \<open>pyval\<close>. A float is modelled by the real number it denotes, with
  exact arithmetic (no rounding, no overflow, no \<^verbatim>\<open>inf\<close> or \<^verbatim>\<open>nan\<close> operand); Python
  integers are unbounded, hence \<open>int\<close>.
\<close>

datatype pyval =
    PNone
  | PBool bool
  | PInt int
  | PFloat real
  | PStr string
  | PBytes string
  | PList "pyval list"

datatype pyerr = ValueError | TypeError | IndexError | ZeroDivisionError

text \<open>
  The conversions between text and numbers are the interpreter's, not the library's. They
  are parameters of the model: \<open>int_of_text\<close> and \<open>float_of_text\<close> are \<^verbatim>\<open>int(s)\<close> and
  \<^verbatim>\<open>float(s)\<close> on text (\<open>None\<close> where Python raises \<^verbatim>\<open>ValueError\<close>),
  \<open>text_of_float\<close> is \<^verbatim>\<open>str(x)\<close> on a float, and \<open>text_of_object\<close> is \<^verbatim>\<open>str(v)\<close> on
  bytes and lists.
\<close>

record runtime =
  int_of_text :: "string \<Rightarrow> int option"
  float_of_text :: "string \<Rightarrow> real option"
  text_of_float :: "real \<Rightarrow> string"
  text_of_object :: "pyval \<Rightarrow> string"

subsection \<open>Text\<close>

definition is_space :: "char \<Rightarrow> bool" where
  "is_space c = (let n = (of_char c :: nat) in (9 \<le> n \<and> n \<le> 13) \<or> (28 \<le> n \<and> n \<le> 32))"

text \<open>\<^verbatim>\<open>s.strip()\<close>: whitespace removed at both ends.\<close>

definition strip :: "string \<Rightarrow> string" where
  "strip s = rev (dropWhile is_space (rev (dropWhile is_space s)))"

text \<open>\<^verbatim>\<open>s.lower()\<close> on ASCII text.\<close>

definition lower_char :: "char \<Rightarrow> char" where
  "lower_char c = (let n = (of_char c :: nat) in if 65 \<le> n \<and> n \<le> 90 then char_of (n + 32) else c)"

definition lower :: "string \<Rightarrow> string" where
  "lower s = map lower_char s"

text \<open>\<^verbatim>\<open>s.split(sep)\<close> for a separator of one character: never an empty list.\<close>

fun split_on :: "char \<Rightarrow> string \<Rightarrow> string list" where
  "split_on sep [] = [[]]"
| "split_on sep (c # cs) =
     (if c = sep then [] # split_on sep cs
      else (case split_on sep cs of
              [] \<Rightarrow> [[c]]
            | w # ws \<Rightarrow> (c # w) # ws))"

text \<open>\<^verbatim>\<open>s.startswith(p)\<close> for a prefix of one character.\<close>

fun startswith :: "string \<Rightarrow> char \<Rightarrow> bool" where
  "startswith [] p = False"
| "startswith (c # cs) p = (c = p)"

text \<open>\<^verbatim>\<open>s.replace(old, new)\<close>: every occurrence of \<open>old\<close>, left to right, without overlap.
  The library only replaces placeholders, which are never empty.\<close>

fun replace_all :: "string \<Rightarrow> string \<Rightarrow> string \<Rightarrow> string" where
  "replace_all old new [] = []"
| "replace_all old new (c # cs) =
     (if old \<noteq> [] \<and> take (length old) (c # cs) = old
      then new @ replace_all old new (drop (length old) (c # cs))
      else c # replace_all old new cs)"

text \<open>\<^verbatim>\<open>str(n)\<close> on an integer: its decimal digits.\<close>

fun digits_of :: "nat \<Rightarrow> nat \<Rightarrow> string" where
  "digits_of 0 n = []"
| "digits_of (Suc fuel) n =
     (if n < 10 then [char_of (48 + n)]
      else digits_of fuel (n div 10) @ [char_of (48 + n mod 10)])"

definition text_of_int :: "int \<Rightarrow> string" where
  "text_of_int n =
     (if n < 0 then CHR ''-'' # digits_of (Suc (nat (- n))) (nat (- n))
      else digits_of (Suc (nat n)) (nat n))"

subsection \<open>Conversions\<close>

text \<open>\<^verbatim>\<open>str(v)\<close>.\<close>

fun py_str :: "runtime \<Rightarrow> pyval \<Rightarrow> string" where
  "py_str rt PNone = ''None''"
| "py_str rt (PBool b) = (if b then ''True'' else ''False'')"
| "py_str rt (PInt n) = text_of_int n"
| "py_str rt (PFloat x) = text_of_float rt x"
| "py_str rt (PStr s) = s"
| "py_str rt (PBytes s) = text_of_object rt (PBytes s)"
| "py_str rt (PList vs) = text_of_object rt (PList vs)"

text \<open>\<^verbatim>\<open>bool(v)\<close>: the truth value of an object.\<close>

fun truthy :: "pyval \<Rightarrow> bool" where
  "truthy PNone = False"
| "truthy (PBool b) = b"
| "truthy (PInt n) = (n \<noteq> 0)"
| "truthy (PFloat x) = (x \<noteq> 0)"
| "truthy (PStr s) = (s \<noteq> [])"
| "truthy (PBytes s) = (s \<noteq> [])"
| "truthy (PList vs) = (vs \<noteq> [])"

text \<open>\<^verbatim>\<open>int(x)\<close> on a float truncates towards zero.\<close>

definition py_trunc :: "real \<Rightarrow> int" where
  "py_trunc x = (if 0 \<le> x then \<lfloor>x\<rfloor> else \<lceil>x\<rceil>)"

text \<open>\<^verbatim>\<open>int(v)\<close> and \<^verbatim>\<open>float(v)\<close>: an error is a value.\<close>

fun py_int :: "runtime \<Rightarrow> pyval \<Rightarrow> pyerr + int" where
  "py_int rt PNone = Inl TypeError"
| "py_int rt (PBool b) = Inr (if b then 1 else 0)"
| "py_int rt (PInt n) = Inr n"
| "py_int rt (PFloat x) = Inr (py_trunc x)"
| "py_int rt (PStr s) = (case int_of_text rt s of None \<Rightarrow> Inl ValueError | Some n \<Rightarrow> Inr n)"
| "py_int rt (PBytes s) = (case int_of_text rt s of None \<Rightarrow> Inl ValueError | Some n \<Rightarrow> Inr n)"
| "py_int rt (PList vs) = Inl TypeError"

fun py_float :: "runtime \<Rightarrow> pyval \<Rightarrow> pyerr + real" where
  "py_float rt PNone = Inl TypeError"
| "py_float rt (PBool b) = Inr (if b then 1 else 0)"
| "py_float rt (PInt n) = Inr (of_int n)"
| "py_float rt (PFloat x) = Inr x"
| "py_float rt (PStr s) = (case float_of_text rt s of None \<Rightarrow> Inl ValueError | Some x \<Rightarrow> Inr x)"
| "py_float rt (PBytes s) = (case float_of_text rt s of None \<Rightarrow> Inl ValueError | Some x \<Rightarrow> Inr x)"
| "py_float rt (PList vs) = Inl TypeError"

text \<open>\<^verbatim>\<open>xs[i]\<close>: a negative index counts from the end, an index out of range raises.\<close>

definition py_index :: "'a list \<Rightarrow> int \<Rightarrow> pyerr + 'a" where
  "py_index xs i =
     (let j = (if i < 0 then i + int (length xs) else i)
      in if j < 0 \<or> int (length xs) \<le> j then Inl IndexError else Inr (xs ! nat j))"

text \<open>Sequencing of fallible steps: the first error ends the computation, as a raised
  exception does inside a \<^verbatim>\<open>try\<close> block.\<close>

definition and_then :: "pyerr + 'a \<Rightarrow> ('a \<Rightarrow> pyerr + 'b) \<Rightarrow> pyerr + 'b" where
  "and_then r f = (case r of Inl e \<Rightarrow> Inl e | Inr x \<Rightarrow> f x)"

section \<open>The sender\<close>

subsection \<open>Type tags\<close>

text \<open>The members of the enumeration \<^verbatim>\<open>OSCTypes\<close>, each with the suffix \<open>_tag\<close>
  (several of the source's names are taken in HOL).\<close>

datatype OSCTypes =
    Int_tag | Float_tag | String_tag | Blob_tag | BigInt_tag | TimeTag_tag | Double_tag
  | Char_tag | Color_tag | Midi_tag | TrueBit_tag | FalseBit_tag | Bool_tag | Nil_tag
  | Infinitum_tag | Bare_tag | Mixed_tag

fun tag_value :: "OSCTypes \<Rightarrow> string" where
  "tag_value Int_tag = ''i''"
| "tag_value Float_tag = ''f''"
| "tag_value String_tag = ''s''"
| "tag_value Blob_tag = ''b''"
| "tag_value BigInt_tag = ''h''"
| "tag_value TimeTag_tag = ''t''"
| "tag_value Double_tag = ''d''"
| "tag_value Char_tag = ''c''"
| "tag_value Color_tag = ''r''"
| "tag_value Midi_tag = ''m''"
| "tag_value TrueBit_tag = ''T''"
| "tag_value FalseBit_tag = ''F''"
| "tag_value Bool_tag = ''B''"
| "tag_value Nil_tag = ''N''"
| "tag_value Infinitum_tag = ''I''"
| "tag_value Bare_tag = ''''"
| "tag_value Mixed_tag = ''M''"

text \<open>The \<^verbatim>\<open>val_type\<close> argument: a member of the enumeration (the templated actions), a
  plain string (the custom action passes \<^verbatim>\<open>"Int"\<close>, \<^verbatim>\<open>"Float"\<close>, \<^verbatim>\<open>"Bool"\<close> or
  \<^verbatim>\<open>"String"\<close>), or \<^verbatim>\<open>None\<close>.\<close>

datatype valtype = Tag OSCTypes | Named string | NoType

text \<open>\<^verbatim>\<open>val_type.value if isinstance(val_type, Enum) else val_type if val_type else None\<close>\<close>

fun val_type_str :: "valtype \<Rightarrow> string option" where
  "val_type_str (Tag t) = Some (tag_value t)"
| "val_type_str (Named s) = (if s \<noteq> [] then Some s else None)"
| "val_type_str NoType = None"

subsection \<open>Colour packing\<close>

text \<open>\<^verbatim>\<open>int(max(0, min(255, x * 255)))\<close>\<close>

definition channel :: "real \<Rightarrow> int" where
  "channel x = py_trunc (max 0 (min 255 (x * 255)))"

definition rgb_floats_to_rgba_int :: "real \<Rightarrow> real \<Rightarrow> real \<Rightarrow> real \<Rightarrow> int" where
  "rgb_floats_to_rgba_int r g b a =
     (let r' = channel r; g' = channel g; b' = channel b; a' = channel a
      in push_bit 24 r' OR push_bit 16 g' OR push_bit 8 b' OR a')"

subsection \<open>Argument conversion\<close>

text \<open>
  The values that \<^verbatim>\<open>send\<close> collects in its list \<^verbatim>\<open>values\<close> and hands to the message
  builder, by their Python type. The builder infers the OSC type of an argument from that
  type: an \<^verbatim>\<open>int\<close> travels as Int, a \<^verbatim>\<open>float\<close> as Float, a \<^verbatim>\<open>bool\<close> as a boolean,
  a \<^verbatim>\<open>str\<close> as String, \<^verbatim>\<open>bytes\<close> as Blob. \<open>InfArg\<close> is \<^verbatim>\<open>float('inf')\<close>.
\<close>

datatype oscarg =
    IntArg int
  | FloatArg real
  | InfArg
  | BoolArg bool
  | StrArg string
  | BytesArg string
  | NoneArg

text \<open>\<^verbatim>\<open>isinstance(v, C)\<close>. In Python \<^verbatim>\<open>bool\<close> is a subclass of \<^verbatim>\<open>int\<close>, so a
  boolean is an instance of \<^verbatim>\<open>int\<close>.\<close>

fun isinstance_int :: "pyval \<Rightarrow> bool" where
  "isinstance_int (PInt n) = True"
| "isinstance_int (PBool b) = True"
| "isinstance_int v = False"

fun isinstance_float :: "pyval \<Rightarrow> bool" where
  "isinstance_float (PFloat x) = True"
| "isinstance_float v = False"

fun isinstance_bool :: "pyval \<Rightarrow> bool" where
  "isinstance_bool (PBool b) = True"
| "isinstance_bool v = False"

fun isinstance_str :: "pyval \<Rightarrow> bool" where
  "isinstance_str (PStr s) = True"
| "isinstance_str v = False"

fun isinstance_bytes :: "pyval \<Rightarrow> bool" where
  "isinstance_bytes (PBytes s) = True"
| "isinstance_bytes v = False"

fun isinstance_list :: "pyval \<Rightarrow> bool" where
  "isinstance_list (PList vs) = True"
| "isinstance_list v = False"

text \<open>One element of a Mixed message (the loop body of the \<^verbatim>\<open>"M"\<close> branch), in the
  source's order of tests.\<close>

definition mixed_arg :: "runtime \<Rightarrow> pyval \<Rightarrow> pyerr + oscarg" where
  "mixed_arg rt val =
     (if isinstance_int val then and_then (py_int rt val) (\<lambda>n. Inr (IntArg n))
      else if isinstance_float val then and_then (py_float rt val) (\<lambda>x. Inr (FloatArg x))
      else if isinstance_bool val then Inr (BoolArg (truthy val))
      else if isinstance_str val then Inr (StrArg (py_str rt val))
      else if isinstance_list val then Inr (StrArg (py_str rt val))
      else Inr (StrArg (py_str rt val)))"

text \<open>\<^verbatim>\<open>v[i]\<close> on a value: lists, text and bytes can be indexed.\<close>

fun py_getitem :: "pyval \<Rightarrow> int \<Rightarrow> pyerr + pyval" where
  "py_getitem (PList vs) i = py_index vs i"
| "py_getitem (PStr s) i = and_then (py_index s i) (\<lambda>c. Inr (PStr [c]))"
| "py_getitem (PBytes s) i = and_then (py_index s i) (\<lambda>c. Inr (PInt (of_char c)))"
| "py_getitem v i = Inl TypeError"

text \<open>A colour component must be a number: \<^verbatim>\<open>max(0, min(255, x * 255))\<close> raises
  \<^verbatim>\<open>TypeError\<close> on anything else.\<close>

fun py_number :: "pyval \<Rightarrow> pyerr + real" where
  "py_number (PBool b) = Inr (if b then 1 else 0)"
| "py_number (PInt n) = Inr (of_int n)"
| "py_number (PFloat x) = Inr x"
| "py_number v = Inl TypeError"

definition color_arg :: "pyval \<Rightarrow> pyerr + oscarg" where
  "color_arg val =
     and_then (py_getitem val 0) (\<lambda>v0.
     and_then (py_getitem val 1) (\<lambda>v1.
     and_then (py_getitem val 2) (\<lambda>v2.
     and_then (py_getitem val 3) (\<lambda>v3.
     and_then (py_number v0) (\<lambda>r.
     and_then (py_number v1) (\<lambda>g.
     and_then (py_number v2) (\<lambda>b.
     and_then (py_number v3) (\<lambda>a.
       Inr (IntArg (rgb_floats_to_rgba_int r g b a))))))))))"

text \<open>One value under a type tag other than \<^verbatim>\<open>"M"\<close>. The source writes this chain of
  tests twice, once for the elements of a list and once for a single value.\<close>

definition typed_arg :: "runtime \<Rightarrow> string option \<Rightarrow> pyval \<Rightarrow> pyerr + oscarg" where
  "typed_arg rt vts val =
     (if vts = Some ''i'' then and_then (py_int rt val) (\<lambda>n. Inr (IntArg n))
      else if vts = Some ''f'' then and_then (py_float rt val) (\<lambda>x. Inr (FloatArg x))
      else if vts = Some ''B'' then Inr (BoolArg (val = PStr ''True''))
      else if vts = Some ''s'' then Inr (StrArg (py_str rt val))
      else if vts = Some ''h'' then and_then (py_int rt val) (\<lambda>n. Inr (IntArg n))
      else if vts = Some ''d'' then and_then (py_float rt val) (\<lambda>x. Inr (FloatArg x))
      else if vts = Some ''c'' then
        Inr (StrArg (case py_str rt val of [] \<Rightarrow> [char_of (0::nat)] | c # cs \<Rightarrow> [c]))
      else if vts = Some ''b'' then
        Inr (BytesArg (case val of PBytes s \<Rightarrow> s | _ \<Rightarrow> py_str rt val))
      else if vts = Some ''r'' then color_arg val
      else if vts = Some ''m'' then
        (if truthy val then and_then (py_int rt val) (\<lambda>n. Inr (IntArg n)) else Inr (IntArg 0))
      else if vts = Some ''t'' then
        (if truthy val then and_then (py_int rt val) (\<lambda>n. Inr (IntArg n)) else Inr (IntArg 0))
      else if vts = Some ''N'' then Inr NoneArg
      else if vts = Some ''I'' then Inr InfArg
      else Inr (StrArg (py_str rt val)))"

text \<open>A loop that appends one converted value per element; the first exception leaves it.\<close>

fun convert_each :: "('a \<Rightarrow> pyerr + 'b) \<Rightarrow> 'a list \<Rightarrow> pyerr + 'b list" where
  "convert_each f [] = Inr []"
| "convert_each f (v # vs) =
     and_then (f v) (\<lambda>a. and_then (convert_each f vs) (\<lambda>as. Inr (a # as)))"

text \<open>\<^verbatim>\<open>for val in raw_val\<close>: what iteration yields, or \<^verbatim>\<open>TypeError\<close>.\<close>

fun py_iter :: "pyval \<Rightarrow> pyerr + pyval list" where
  "py_iter (PList vs) = Inr vs"
| "py_iter (PStr s) = Inr (map (\<lambda>c. PStr [c]) s)"
| "py_iter (PBytes s) = Inr (map (\<lambda>c. PInt (of_char c)) s)"
| "py_iter v = Inl TypeError"

text \<open>The list \<^verbatim>\<open>values\<close> of \<^verbatim>\<open>send\<close>.\<close>

definition convert_values :: "runtime \<Rightarrow> string option \<Rightarrow> pyval \<Rightarrow> pyerr + oscarg list" where
  "convert_values rt vts raw_val =
     (if vts = Some ''M'' then and_then (py_iter raw_val) (convert_each (mixed_arg rt))
      else if isinstance_list raw_val then
        (case raw_val of PList vs \<Rightarrow> convert_each (typed_arg rt vts) vs | _ \<Rightarrow> Inr [])
      else and_then (typed_arg rt vts raw_val) (\<lambda>a. Inr [a]))"

subsection \<open>Transmission\<close>

text \<open>The endpoint configuration, read at every send.\<close>

record config =
  host :: string
  port :: int
  prefix :: string

text \<open>
  What the calls outside the library do during one \<^verbatim>\<open>send\<close>: whether the message
  builder accepts the arguments, whether a socket can be created, whether
  \<^verbatim>\<open>sendto\<close> transmits, and whether the timer of the status refresh starts. Each of
  them raises an exception when it fails.
\<close>

record world =
  build_ok :: bool
  socket_ok :: bool
  sendto_ok :: bool
  push_ok :: bool

datatype failure =
    Raised pyerr
  | BuildFailed
  | SocketFailed
  | TransmitFailed
  | TimerFailed

text \<open>The diagnostics of the library: the messages of \<^verbatim>\<open>plugin.logError\<close>, and of
  \<^verbatim>\<open>self.log\<close> in an exception handler. Informational logging is left out.\<close>

datatype diag =
    NotEnoughArgs nat nat
  | PathSubstitutionError string pyerr
  | ValueSubstitutionError string pyerr
  | SendError failure
  | SendActionError
  | CustomActionError pyerr

text \<open>What an invocation does, in order.\<close>

datatype event =
    Diagnostic diag
  | SocketOpened
  | Datagram string int string "oscarg list"
  | StatusPush
  | SocketClosed
  | Callback bool

text \<open>
  \<^verbatim>\<open>send\<close>. The whole body stands in one \<^verbatim>\<open>try\<close> whose handler logs the exception, so
  nothing is raised to the caller. The socket is created after the message is built, and
  \<^verbatim>\<open>sock.close()\<close> is the statement after \<^verbatim>\<open>sendto\<close> and \<^verbatim>\<open>safe_push_output\<close>.
\<close>

definition send :: "runtime \<Rightarrow> world \<Rightarrow> config \<Rightarrow> string \<Rightarrow> valtype \<Rightarrow> pyval \<Rightarrow> event list" where
  "send rt w cfg address val_type raw_val =
     (let vts = val_type_str val_type in
      case convert_values rt vts raw_val of
        Inl e \<Rightarrow> [Diagnostic (SendError (Raised e))]
      | Inr values \<Rightarrow>
          (let full_address = prefix cfg @ address;
               args = (if vts = None then [] else filter (\<lambda>v. v \<noteq> NoneArg) values)
           in if \<not> build_ok w then [Diagnostic (SendError BuildFailed)]
              else if \<not> socket_ok w then [Diagnostic (SendError SocketFailed)]
              else if \<not> sendto_ok w then
                [SocketOpened, Diagnostic (SendError TransmitFailed)]
              else if \<not> push_ok w then
                [SocketOpened, Datagram (host cfg) (port cfg) full_address args,
                 Diagnostic (SendError TimerFailed)]
              else
                [SocketOpened, Datagram (host cfg) (port cfg) full_address args,
                 StatusPush, SocketClosed]))"

section \<open>The action runtime\<close>

subsection \<open>Placeholders\<close>

text \<open>
  \<^verbatim>\<open>re.finditer(r'\{([^{}]+)\}', text)\<close>, as the list of the bodies (\<^verbatim>\<open>group(1)\<close>) of
  the matches in order. The scanner remembers the body read since the last opening brace
  (\<open>None\<close> outside a placeholder): a closing brace after a body that is not empty ends a
  match, an opening brace starts afresh, and an empty pair of braces matches nothing.
\<close>

fun scan_defs :: "string option \<Rightarrow> string \<Rightarrow> string list" where
  "scan_defs st [] = []"
| "scan_defs None (c # cs) =
     (if c = CHR ''{'' then scan_defs (Some []) cs else scan_defs None cs)"
| "scan_defs (Some body) (c # cs) =
     (if c = CHR ''}'' then
        (if body \<noteq> [] then rev body # scan_defs None cs else scan_defs None cs)
      else if c = CHR ''{'' then scan_defs (Some []) cs
      else scan_defs (Some (c # body)) cs)"

definition find_defs :: "string \<Rightarrow> string list" where
  "find_defs text = scan_defs None text"

text \<open>\<^verbatim>\<open>parts = [p.strip() for p in ddef.split(",")]\<close>\<close>

definition parts_of :: "string \<Rightarrow> string list" where
  "parts_of ddef = map strip (split_on CHR '','' ddef)"

subsection \<open>Coercion\<close>

text \<open>\<^verbatim>\<open>modifier = parts[6] if len(parts) > 6 else None\<close>\<close>

definition modifier_of :: "string list \<Rightarrow> string option" where
  "modifier_of parts = (if length parts > 6 then Some (parts ! 6) else None)"

text \<open>The arithmetic modifier, tested in the order \<^verbatim>\<open>*\<close>, \<^verbatim>\<open>/\<close>, \<^verbatim>\<open>+\<close>, \<^verbatim>\<open>-\<close>. An
  absent or empty modifier, and one that starts with another character, leave the value
  as it is. Division by zero raises.\<close>

definition apply_modifier :: "runtime \<Rightarrow> string option \<Rightarrow> real \<Rightarrow> pyerr + real" where
  "apply_modifier rt modifier val =
     (case modifier of
        None \<Rightarrow> Inr val
      | Some m \<Rightarrow>
          if m = [] then Inr val
          else if startswith m CHR ''*'' then
            and_then (py_float rt (PStr (tl m))) (\<lambda>k. Inr (val * k))
          else if startswith m CHR ''/'' then
            and_then (py_float rt (PStr (tl m)))
              (\<lambda>k. if k = 0 then Inl ZeroDivisionError else Inr (val / k))
          else if startswith m CHR ''+'' then
            and_then (py_float rt (PStr (tl m))) (\<lambda>k. Inr (val + k))
          else if startswith m CHR ''-'' then
            and_then (py_float rt (PStr (tl m))) (\<lambda>k. Inr (val - k))
          else Inr val)"

text \<open>The numeric kinds \<^verbatim>\<open>I\<close> and \<^verbatim>\<open>F\<close>: \<^verbatim>\<open>val = float(raw_val)\<close>, then the modifier.\<close>

definition numeric_value :: "runtime \<Rightarrow> string list \<Rightarrow> pyval \<Rightarrow> pyerr + real" where
  "numeric_value rt parts raw_val =
     and_then (py_float rt raw_val) (apply_modifier rt (modifier_of parts))"

text \<open>The kind \<^verbatim>\<open>B\<close>:
  \<^verbatim>\<open>bool(raw_val and str(raw_val).lower() not in ["false", "0", "no"])\<close>\<close>

definition bool_value :: "runtime \<Rightarrow> pyval \<Rightarrow> bool" where
  "bool_value rt raw_val =
     (truthy raw_val \<and> lower (py_str rt raw_val) \<notin> set [''false'', ''0'', ''no''])"

text \<open>The kind \<^verbatim>\<open>A\<close>: \<^verbatim>\<open>options = parts[3].split(";")\<close>, then
  \<^verbatim>\<open>options[int(raw_val)].strip()\<close>.\<close>

definition array_value :: "runtime \<Rightarrow> string list \<Rightarrow> pyval \<Rightarrow> pyerr + string" where
  "array_value rt parts raw_val =
     and_then (py_index parts 3) (\<lambda>field.
     and_then (py_int rt raw_val) (\<lambda>i.
     and_then (py_index (split_on CHR '';'' field) i) (\<lambda>option. Inr (strip option))))"

text \<open>The \<^verbatim>\<open>try\<close> block of the value substitution: the typed value of one placeholder.\<close>

definition coerce_value :: "runtime \<Rightarrow> string \<Rightarrow> pyval \<Rightarrow> pyerr + pyval" where
  "coerce_value rt ddef raw_val =
     (let parts = parts_of ddef; param_type = hd parts
      in if param_type \<in> set [''I'', ''F''] then
           and_then (numeric_value rt parts raw_val)
             (\<lambda>val. Inr (if param_type = ''I'' then PInt (py_trunc val) else PFloat val))
         else if param_type = ''B'' then Inr (PStr (py_str rt (PBool (bool_value rt raw_val))))
         else if param_type = ''A'' then
           and_then (array_value rt parts raw_val) (\<lambda>option. Inr (PStr option))
         else if param_type = ''S'' then Inr (PStr (py_str rt raw_val))
         else Inr (PStr (py_str rt raw_val)))"

text \<open>The \<^verbatim>\<open>try\<close> block of the path substitution: the text of one placeholder.\<close>

definition coerce_path :: "runtime \<Rightarrow> string \<Rightarrow> pyval \<Rightarrow> pyerr + string" where
  "coerce_path rt ddef raw_val =
     (let parts = parts_of ddef; param_type = hd parts
      in if param_type \<in> set [''I'', ''F''] then
           and_then (numeric_value rt parts raw_val)
             (\<lambda>val. Inr (if param_type = ''I'' then text_of_int (py_trunc val)
                          else text_of_float rt val))
         else if param_type = ''B'' then Inr (py_str rt (PBool (bool_value rt raw_val)))
         else if param_type = ''A'' then array_value rt parts raw_val
         else if param_type = ''S'' then Inr (py_str rt raw_val)
         else Inr (py_str rt raw_val))"

subsection \<open>Invocation\<close>

text \<open>The path loop: each placeholder with its argument. The handler of the \<^verbatim>\<open>try\<close>
  logs the error and falls back to \<^verbatim>\<open>str(raw_val)\<close>; the loop goes on.\<close>

fun substitute_path :: "runtime \<Rightarrow> (string \<times> pyval) list \<Rightarrow> string \<Rightarrow> string \<times> event list" where
  "substitute_path rt [] tempPath = (tempPath, [])"
| "substitute_path rt ((ddef, raw_val) # rest) tempPath =
     (let (replacement, logged) =
            (case coerce_path rt ddef raw_val of
               Inr text \<Rightarrow> (text, [])
             | Inl e \<Rightarrow> (py_str rt raw_val, [Diagnostic (PathSubstitutionError ddef e)]));
          (final, later) =
            substitute_path rt rest
              (replace_all (''{'' @ ddef @ ''}'') replacement tempPath)
      in (final, logged @ later))"

text \<open>The value loop, with the same handler.\<close>

fun resolve_values :: "runtime \<Rightarrow> (string \<times> pyval) list \<Rightarrow> pyval list \<times> event list" where
  "resolve_values rt [] = ([], [])"
| "resolve_values rt ((ddef, raw_val) # rest) =
     (let (replacement, logged) =
            (case coerce_value rt ddef raw_val of
               Inr v \<Rightarrow> (v, [])
             | Inl e \<Rightarrow> (PStr (py_str rt raw_val), [Diagnostic (ValueSubstitutionError ddef e)]));
          (send_values, later) = resolve_values rt rest
      in (replacement # send_values, logged @ later))"

text \<open>
  \<^verbatim>\<open>_send_osc_action\<close>: \<^verbatim>\<open>self.send(...)\<close>, then \<^verbatim>\<open>callback(True)\<close>. Its handler
  (\<^verbatim>\<open>logError\<close>, \<^verbatim>\<open>callback(False)\<close>) runs when the \<^verbatim>\<open>try\<close> block raises, which
  \<^verbatim>\<open>send\<close> never does: it handles every exception of its own body.
\<close>

definition send_osc_action ::
  "runtime \<Rightarrow> world \<Rightarrow> config \<Rightarrow> valtype \<Rightarrow> string \<Rightarrow> pyval \<Rightarrow> event list" where
  "send_osc_action rt w cfg val_type address val =
     send rt w cfg address val_type val @ [Callback True]"

text \<open>What \<^verbatim>\<open>oscAction\<close> keeps of its arguments for the closure \<^verbatim>\<open>action_callback\<close>.\<close>

record action =
  act_val_type :: valtype
  act_path :: string
  act_values :: "string list"

definition path_defs :: "action \<Rightarrow> string list" where
  "path_defs act = find_defs (act_path act)"

definition value_defs :: "action \<Rightarrow> string list" where
  "value_defs act = concat (map find_defs (act_values act))"

definition expected_total :: "action \<Rightarrow> nat" where
  "expected_total act = 1 + length (path_defs act) + length (value_defs act)"

text \<open>
  \<^verbatim>\<open>action_callback(*args)\<close> of \<^verbatim>\<open>oscAction\<close>, for a call
  \<^verbatim>\<open>action_callback(callback, *dyn)\<close>: the host passes the completion callback first,
  so \<^verbatim>\<open>len(args)\<close> is \<open>1 + length dyn\<close>. The arity guard logs and returns.
\<close>

definition action_callback ::
  "runtime \<Rightarrow> world \<Rightarrow> config \<Rightarrow> action \<Rightarrow> pyval list \<Rightarrow> event list" where
  "action_callback rt w cfg act dyn =
     (if 1 + length dyn < expected_total act then
        [Diagnostic (NotEnoughArgs (1 + length dyn) (expected_total act))]
      else
        (let dyn_args = take (expected_total act - 1) dyn;
             (tempPath, path_log) =
               substitute_path rt (zip (path_defs act) dyn_args) (act_path act);
             (send_values, value_log) =
               (if act_val_type act \<noteq> Tag Bare_tag \<and> act_values act \<noteq> [] \<and> value_defs act \<noteq> []
                then resolve_values rt
                       (zip (value_defs act) (drop (length (path_defs act)) dyn_args))
                else ([], []))
         in path_log @ value_log @
            send_osc_action rt w cfg (act_val_type act) tempPath (PList send_values)))"

subsection \<open>The custom action\<close>




section \<open>The listener lifecycle\<close>

text \<open>
  The fields of \<^verbatim>\<open>SPOSC\<close> that \<^verbatim>\<open>enable\<close>, \<^verbatim>\<open>disable\<close> and the background loop
  read and write. \<open>transport_open\<close> and \<open>server_set\<close> say that \<^verbatim>\<open>_transport\<close> and
  \<^verbatim>\<open>_osc_server\<close> are not \<^verbatim>\<open>None\<close>; \<open>thread_started\<close> says that \<^verbatim>\<open>_thread\<close> is set,
  with the arguments its loop was started with; \<open>loop_running\<close> says that \<^verbatim>\<open>_loop\<close> is
  set and running.
\<close>

record listener =
  should_run :: bool
  listener_enabled :: bool
  transport_open :: bool
  server_set :: bool
  loop_running :: bool
  thread_started :: "(string \<times> int \<times> real) option"

text \<open>\<^verbatim>\<open>SPOSC.__init__\<close>\<close>

definition init_listener :: listener where
  "init_listener =
     \<lparr>should_run = False, listener_enabled = False, transport_open = False,
      server_set = False, loop_running = False, thread_started = None\<rparr>"

datatype lifecycle_log =
    AlreadyEnabled
  | LoopStarted
  | AlreadyDisabled
  | TransportClosed
  | ServerCleared
  | ThreadTerminated
  | AttemptingStartup
  | ListenerRunning
  | BindFailed

text \<open>What the lifecycle does: a log line, the start of a background thread, an attempt
  to bind the listening endpoint (with its outcome).\<close>

datatype lifecycle_event =
    Log lifecycle_log
  | ThreadStart
  | BindAttempt string int bool

text \<open>\<^verbatim>\<open>enable\<close>: guarded by \<^verbatim>\<open>_should_run\<close>; otherwise it sets the flag and starts the
  background thread.\<close>

definition enable :: "string \<Rightarrow> int \<Rightarrow> real \<Rightarrow> listener \<Rightarrow> listener \<times> lifecycle_event list" where
  "enable listen_ip listen_port retry_interval s =
     (if should_run s then (s, [Log AlreadyEnabled])
      else (s\<lparr>should_run := True,
               thread_started := Some (listen_ip, listen_port, retry_interval)\<rparr>,
            [ThreadStart, Log LoopStarted]))"

text \<open>
  \<^verbatim>\<open>_start_listener\<close>: skipped when the listener is enabled; otherwise one bind, whose
  outcome \<open>bind_ok\<close> the operating system decides.
\<close>

definition start_listener :: "string \<Rightarrow> int \<Rightarrow> bool \<Rightarrow> listener \<Rightarrow> listener \<times> lifecycle_event list" where
  "start_listener listen_ip listen_port bind_ok s =
     (if listener_enabled s then (s, [])
      else if bind_ok then
        (s\<lparr>server_set := True, transport_open := True, listener_enabled := True\<rparr>,
         [BindAttempt listen_ip listen_port True, Log ListenerRunning])
      else
        (s\<lparr>server_set := True, listener_enabled := False\<rparr>,
         [BindAttempt listen_ip listen_port False, Log BindFailed]))"

text \<open>
  One turn of the background thread: it starts its event loop and runs the body of
  \<^verbatim>\<open>while self._should_run\<close> in \<^verbatim>\<open>_main_loop\<close> once (the sleep of
  \<^verbatim>\<open>retry_interval\<close> separates two turns). Without a started thread nothing happens.
\<close>

definition main_loop_turn :: "bool \<Rightarrow> listener \<Rightarrow> listener \<times> lifecycle_event list" where
  "main_loop_turn bind_ok s =
     (case thread_started s of
        None \<Rightarrow> (s, [])
      | Some (listen_ip, listen_port, retry_interval) \<Rightarrow>
          (let s1 = s\<lparr>loop_running := True\<rparr>
           in if \<not> should_run s1 then (s1, [])
              else if \<not> listener_enabled s1 then
                (let (s2, evs) = start_listener listen_ip listen_port bind_ok s1
                 in (s2, Log AttemptingStartup # evs))
              else (s1, [])))"

text \<open>A schedule of the two threads: the caller calls \<^verbatim>\<open>enable\<close>, the background
  thread takes a turn.\<close>

datatype step = CallEnable string int real | Turn bool

fun run_step :: "step \<Rightarrow> listener \<Rightarrow> listener \<times> lifecycle_event list" where
  "run_step (CallEnable listen_ip listen_port retry_interval) s =
     enable listen_ip listen_port retry_interval s"
| "run_step (Turn bind_ok) s = main_loop_turn bind_ok s"

fun run :: "step list \<Rightarrow> listener \<Rightarrow> listener \<times> lifecycle_event list" where
  "run [] s = (s, [])"
| "run (st # sts) s =
     (let (s1, evs) = run_step st s; (s2, later) = run sts s1 in (s2, evs @ later))"

fun is_bind :: "lifecycle_event \<Rightarrow> bool" where
  "is_bind (BindAttempt listen_ip listen_port ok) = True"
| "is_bind ev = False"

fun is_turn :: "step \<Rightarrow> bool" where
  "is_turn (Turn bind_ok) = True"
| "is_turn st = False"

definition bind_attempts :: "lifecycle_event list \<Rightarrow> nat" where
  "bind_attempts evs = length (filter is_bind evs)"

definition threads_started :: "lifecycle_event list \<Rightarrow> nat" where
  "threads_started evs = length (filter (\<lambda>ev. ev = ThreadStart) evs)"

subsection \<open>Shutdown\<close>

text \<open>
  How the background thread answers one \<^verbatim>\<open>disable\<close>, as seen from the caller:
  \<open>completes_after\<close> is the time from the request until the coroutine \<^verbatim>\<open>_shutdown\<close>
  has set the event \<^verbatim>\<open>shutdown_complete\<close>, and \<open>exits_after\<close> the time from the start of
  \<^verbatim>\<open>join\<close> until the thread has ended; \<open>None\<close> when that never happens (a scheduler that
  does not respond). Times are in seconds.
\<close>

record scheduler =
  completes_after :: "real option"
  exits_after :: "real option"

text \<open>A blocking call with a timeout (\<^verbatim>\<open>Event.wait(timeout)\<close>, \<^verbatim>\<open>Thread.join(timeout)\<close>)
  returns when what it waits for happens, or when the timeout has passed.\<close>

definition timed_wait :: "real \<Rightarrow> real option \<Rightarrow> real" where
  "timed_wait timeout happens = (case happens of None \<Rightarrow> timeout | Some d \<Rightarrow> min timeout d)"

text \<open>The body of \<^verbatim>\<open>_shutdown\<close>, run by the event loop.\<close>

definition shutdown :: "listener \<Rightarrow> listener \<times> lifecycle_event list" where
  "shutdown s =
     (let (s1, evs) = (if transport_open s then (s\<lparr>transport_open := False\<rparr>, [Log TransportClosed])
                       else (s, []))
      in (s1\<lparr>server_set := False, listener_enabled := False, loop_running := False\<rparr>,
          evs @ [Log ServerCleared]))"

text \<open>What a call of \<^verbatim>\<open>disable\<close> gives: the state at its return, its log, and the time
  the caller was blocked in \<^verbatim>\<open>shutdown_complete.wait(timeout=2.0)\<close> and in
  \<^verbatim>\<open>self._thread.join(timeout=2.0)\<close>.\<close>

record disabled =
  state_after :: listener
  logged :: "lifecycle_event list"
  completion_wait :: real
  join_wait :: real

text \<open>
  \<^verbatim>\<open>disable\<close>. The request is handed to the event loop only if the loop is running;
  the event is set by \<^verbatim>\<open>_shutdown\<close> alone. The caller then waits for the event, and
  after that joins the thread, each for at most 2 seconds.
\<close>

definition disable :: "scheduler \<Rightarrow> listener \<Rightarrow> disabled" where
  "disable sched s =
     (if \<not> should_run s then
        \<lparr>state_after = s, logged = [Log AlreadyDisabled], completion_wait = 0, join_wait = 0\<rparr>
      else
        (let s1 = s\<lparr>should_run := False\<rparr>;
             event_set = (if loop_running s1 then completes_after sched else None);
             w1 = timed_wait 2 event_set;
             (s2, evs) = (case event_set of
                            None \<Rightarrow> (s1, [])
                          | Some d \<Rightarrow> if d \<le> 2 then shutdown s1 else (s1, []));
             joined = (thread_started s2 \<noteq> None);
             w2 = (if joined then timed_wait 2 (exits_after sched) else 0)
         in \<lparr>state_after = s2\<lparr>loop_running := False, thread_started := None\<rparr>,
             logged = evs @ (if joined then [Log ThreadTerminated] else []),
             completion_wait = w1, join_wait = w2\<rparr>))"

text \<open>The time for which \<^verbatim>\<open>disable\<close> blocks its caller.\<close>

definition blocked_time :: "disabled \<Rightarrow> real" where
  "blocked_time d = completion_wait d + join_wait d"

section \<open>A runtime and a world for the examples\<close>

text \<open>
  The theorems below hold for every runtime. Their instances at concrete inputs are
  evaluated in \<open>decimal_runtime\<close>, which reads a text of decimal digits as Python's
  \<^verbatim>\<open>int\<close> and \<^verbatim>\<open>float\<close> do, and prints a whole float as Python does (\<^verbatim>\<open>20.0\<close>) and
  an empty list as \<^verbatim>\<open>[]\<close>; the examples need no other text conversion.
\<close>

fun read_digits :: "nat \<Rightarrow> string \<Rightarrow> nat option" where
  "read_digits acc [] = Some acc"
| "read_digits acc (c # cs) =
     (let n = (of_char c :: nat)
      in if 48 \<le> n \<and> n \<le> 57 then read_digits (10 * acc + (n - 48)) cs else None)"

definition decimal_of_text :: "string \<Rightarrow> nat option" where
  "decimal_of_text s = (if s = [] then None else read_digits 0 s)"

definition decimal_runtime :: runtime where
  "decimal_runtime =
     \<lparr>int_of_text = (\<lambda>s. map_option int (decimal_of_text s)),
      float_of_text = (\<lambda>s. map_option real (decimal_of_text s)),
      text_of_float = (\<lambda>x. text_of_int (py_trunc x) @ ''.0''),
      text_of_object = (\<lambda>v. ''[]'')\<rparr>"

text \<open>A world in which every outside call succeeds, and the endpoint of the examples.\<close>

definition working :: world where
  "working = \<lparr>build_ok = True, socket_ok = True, sendto_ok = True, push_ok = True\<rparr>"

definition studio :: config where
  "studio = \<lparr>host = ''127.0.0.1'', port = 9001, prefix = ''/studio''\<rparr>"

text \<open>Two of the actions that the plugin registers with \<^verbatim>\<open>oscAction\<close>, and one with a
  placeholder of the array kind.\<close>

definition master_level :: action where
  "master_level =
     \<lparr>act_val_type = Tag Int_tag, act_path = ''/Output/Master'',
      act_values = [''{I, Level, 127, 0, 255}'']\<rparr>"





text \<open>A listener that has been enabled and has bound its endpoint, and a scheduler that
  does not respond.\<close>

definition enabled_listener :: listener where
  "enabled_listener = fst (run [CallEnable ''127.0.0.1'' 9002 5, Turn True] init_listener)"

definition unresponsive :: scheduler where
  "unresponsive = \<lparr>completes_after = None, exits_after = None\<rparr>"

section \<open>Properties\<close>

subsection \<open>Colour packing\<close>










subsection \<open>The sender\<close>

text \<open>
  Claim C6. In a Mixed message an integer is sent as Int, a float as Float and a string
  as String, but a boolean is not sent as Bool: \<^verbatim>\<open>isinstance(val, int)\<close> is the first
  test and holds of \<^verbatim>\<open>True\<close> and \<^verbatim>\<open>False\<close>, so \<^verbatim>\<open>int(val)\<close> makes them the integers
  1 and 0, and the test \<^verbatim>\<open>isinstance(val, bool)\<close> after it is never reached by a
  boolean.
\<close>

theorem mixed_bool_encodes_as_int:
  "mixed_arg rt (PBool b) = Inr (IntArg (if b then 1 else 0))
   \<and> convert_values rt (val_type_str (Tag Mixed_tag))
         (PList [PBool True, PInt 7, PFloat (1 / 2), PStr ''on''])
       = Inr [IntArg 1, IntArg 7, FloatArg (1 / 2), StrArg ''on'']
   \<and> send rt working studio ''/Audio/Input/Mute'' (Tag Mixed_tag) (PList [PBool True])
       = [SocketOpened, Datagram ''127.0.0.1'' 9001 ''/studio/Audio/Input/Mute'' [IntArg 1],
          StatusPush, SocketClosed]"
  by (simp add: mixed_arg_def convert_values_def and_then_def send_def working_def studio_def)

text \<open>
  Claim C7. When \<^verbatim>\<open>sendto\<close> raises, \<^verbatim>\<open>send\<close> has created its socket and leaves it
  open: the handler only logs, and \<^verbatim>\<open>sock.close()\<close>, the statement after the
  transmission, is skipped.
\<close>

theorem send_leaves_socket_open:
  "send rt \<lparr>build_ok = True, socket_ok = True, sendto_ok = False, push_ok = True\<rparr> studio
      ''/Output/Master'' (Tag Int_tag) (PList [PInt 127])
     = [SocketOpened, Diagnostic (SendError TransmitFailed)]"
  by (simp add: send_def convert_values_def typed_arg_def and_then_def)

subsection \<open>Invocation of a templated action\<close>






lemma master_level_defs:
  "path_defs master_level = []" "value_defs master_level = [''I, Level, 127, 0, 255'']"
  by (simp_all add: path_defs_def value_defs_def master_level_def find_defs_def)

text \<open>
  Claim C1. A call with fewer dynamic arguments than the action has placeholders logs one
  diagnostic and returns: nothing is raised and the sender is not called, but the
  completion callback is not called either.
\<close>

theorem arity_guard:
  assumes "length dyn < length (path_defs act) + length (value_defs act)"
  shows "action_callback rt w cfg act dyn =
           [Diagnostic (NotEnoughArgs (1 + length dyn) (expected_total act))]"
  using assms by (simp add: action_callback_def expected_total_def)

theorem arity_guard_witness:
  "action_callback decimal_runtime working studio master_level [] =
     [Diagnostic (NotEnoughArgs 1 2)]"
  using arity_guard [of "[]" master_level decimal_runtime working studio]
  by (simp add: master_level_defs expected_total_def)








subsection \<open>Coercion\<close>

lemma split_on_nonempty: "split_on sep s \<noteq> []"
  by (induction s) (auto split: list.splits)









lemma bool_kind_value:
  assumes "hd (parts_of ddef) = ''B''"
  shows "coerce_value rt ddef raw_val
           = Inr (PStr (if bool_value rt raw_val then ''True'' else ''False''))"
  using assms by (simp add: coerce_value_def Let_def)

lemma bool_kind_path:
  assumes "hd (parts_of ddef) = ''B''"
  shows "coerce_path rt ddef raw_val = Inr (if bool_value rt raw_val then ''True'' else ''False'')"
  using assms by (simp add: coerce_path_def Let_def)

lemma bool_wire:
  "convert_values rt (val_type_str (Tag Bool_tag))
      (PList [PStr (if b then ''True'' else ''False'')]) = Inr [BoolArg b]"
  by (simp add: convert_values_def typed_arg_def and_then_def)

lemma bool_value_iff:
  "bool_value rt raw_val \<longleftrightarrow>
     truthy raw_val \<and> lower (py_str rt raw_val) \<notin> {''false'', ''0'', ''no''}"
  by (simp only: bool_value_def set_simps)

text \<open>
  Claim C4, as the code has it. A placeholder of the kind \<^verbatim>\<open>B\<close> yields false exactly
  when the raw value is false as a Python object (\<^verbatim>\<open>None\<close>, \<^verbatim>\<open>False\<close>, zero, an empty
  text, bytes or list) or its lower-cased text is one of \<^verbatim>\<open>false\<close>, \<^verbatim>\<open>0\<close>, \<^verbatim>\<open>no\<close>. The
  result is the text \<^verbatim>\<open>True\<close> or \<^verbatim>\<open>False\<close>, in the path and as the resolved value, and
  \<^verbatim>\<open>send\<close> under the tag Bool makes that text a boolean argument.
\<close>

theorem bool_coercion:
  assumes "hd (parts_of ddef) = ''B''"
  shows "(coerce_value rt ddef raw_val = Inr (PStr ''False'') \<longleftrightarrow>
            \<not> truthy raw_val \<or> lower (py_str rt raw_val) \<in> {''false'', ''0'', ''no''})
       \<and> (coerce_value rt ddef raw_val = Inr (PStr ''True'') \<longleftrightarrow>
            truthy raw_val \<and> lower (py_str rt raw_val) \<notin> {''false'', ''0'', ''no''})
       \<and> (coerce_path rt ddef raw_val = Inr ''False'' \<longleftrightarrow>
            \<not> truthy raw_val \<or> lower (py_str rt raw_val) \<in> {''false'', ''0'', ''no''})
       \<and> (coerce_path rt ddef raw_val = Inr ''True'' \<longleftrightarrow>
            truthy raw_val \<and> lower (py_str rt raw_val) \<notin> {''false'', ''0'', ''no''})
       \<and> (\<exists>v. coerce_value rt ddef raw_val = Inr v
              \<and> convert_values rt (val_type_str (Tag Bool_tag)) (PList [v])
                  = Inr [BoolArg (truthy raw_val
                      \<and> lower (py_str rt raw_val) \<notin> {''false'', ''0'', ''no''})])"
proof -
  define yes where "yes = bool_value rt raw_val"
  have val_eq: "coerce_value rt ddef raw_val = Inr (PStr (if yes then ''True'' else ''False''))"
    unfolding yes_def by (rule bool_kind_value [OF assms])
  have path_eq: "coerce_path rt ddef raw_val = Inr (if yes then ''True'' else ''False'')"
    unfolding yes_def by (rule bool_kind_path [OF assms])
  have v_false: "coerce_value rt ddef raw_val = Inr (PStr ''False'') \<longleftrightarrow> \<not> yes"
    unfolding val_eq by simp
  have v_true: "coerce_value rt ddef raw_val = Inr (PStr ''True'') \<longleftrightarrow> yes"
    unfolding val_eq by simp
  have p_false: "coerce_path rt ddef raw_val = Inr ''False'' \<longleftrightarrow> \<not> yes"
    unfolding path_eq by simp
  have p_true: "coerce_path rt ddef raw_val = Inr ''True'' \<longleftrightarrow> yes"
    unfolding path_eq by simp
  have wire: "\<exists>v. coerce_value rt ddef raw_val = Inr v
      \<and> convert_values rt (val_type_str (Tag Bool_tag)) (PList [v]) = Inr [BoolArg yes]"
    unfolding val_eq using bool_wire [of rt yes] by blast
  have yes: "yes \<longleftrightarrow> truthy raw_val \<and> lower (py_str rt raw_val) \<notin> {''false'', ''0'', ''no''}"
    unfolding yes_def by (rule bool_value_iff)
  show ?thesis
    unfolding v_false v_true p_false p_true using wire unfolding yes by blast
qed

text \<open>The empty text and \<^verbatim>\<open>None\<close> yield false, and their lower-cased texts are not in
  the set.\<close>

theorem bool_false_outside_the_set:
  "coerce_value decimal_runtime ''B, Mute, 0, 0;1, Off;On'' (PStr []) = Inr (PStr ''False'')
   \<and> lower (py_str decimal_runtime (PStr [])) \<notin> {''false'', ''0'', ''no''}
   \<and> coerce_value decimal_runtime ''B, Mute, 0, 0;1, Off;On'' PNone = Inr (PStr ''False'')
   \<and> lower (py_str decimal_runtime PNone) \<notin> {''false'', ''0'', ''no''}"
  by code_simp

theorem bool_coercion_witness:
  "coerce_value decimal_runtime ''B, Mute, 0, 0;1, Off;On'' (PStr ''0'') = Inr (PStr ''False'')
   \<and> coerce_value decimal_runtime ''B, Mute, 0, 0;1, Off;On'' (PStr ''FALSE'') = Inr (PStr ''False'')
   \<and> coerce_value decimal_runtime ''B, Mute, 0, 0;1, Off;On'' (PStr ''1'') = Inr (PStr ''True'')
   \<and> coerce_value decimal_runtime ''B, Mute, 0, 0;1, Off;On'' (PStr []) = Inr (PStr ''False'')"
proof -
  have kind: "hd (parts_of ''B, Mute, 0, 0;1, Off;On'') = ''B''"
    by code_simp
  have zero: "\<not> truthy (PStr ''0'')
      \<or> lower (py_str decimal_runtime (PStr ''0'')) \<in> {''false'', ''0'', ''no''}"
    by code_simp
  have false: "\<not> truthy (PStr ''FALSE'')
      \<or> lower (py_str decimal_runtime (PStr ''FALSE'')) \<in> {''false'', ''0'', ''no''}"
    by code_simp
  have one: "truthy (PStr ''1'')
      \<and> lower (py_str decimal_runtime (PStr ''1'')) \<notin> {''false'', ''0'', ''no''}"
    by code_simp
  have empty: "\<not> truthy (PStr [])
      \<or> lower (py_str decimal_runtime (PStr [])) \<in> {''false'', ''0'', ''no''}"
    by simp
  have c0: "coerce_value decimal_runtime ''B, Mute, 0, 0;1, Off;On'' (PStr ''0'') = Inr (PStr ''False'')"
    by (rule bool_coercion [OF kind, of decimal_runtime "PStr ''0''", THEN conjunct1, THEN iffD2, OF zero])
  have c1: "coerce_value decimal_runtime ''B, Mute, 0, 0;1, Off;On'' (PStr ''FALSE'') = Inr (PStr ''False'')"
    by (rule bool_coercion [OF kind, of decimal_runtime "PStr ''FALSE''", THEN conjunct1, THEN iffD2, OF false])
  have c2: "coerce_value decimal_runtime ''B, Mute, 0, 0;1, Off;On'' (PStr ''1'') = Inr (PStr ''True'')"
    by (rule bool_coercion [OF kind, of decimal_runtime "PStr ''1''", THEN conjunct2, THEN conjunct1, THEN iffD2, OF one])
  have c3: "coerce_value decimal_runtime ''B, Mute, 0, 0;1, Off;On'' (PStr []) = Inr (PStr ''False'')"
    by (rule bool_coercion [OF kind, of decimal_runtime "PStr []", THEN conjunct1, THEN iffD2, OF empty])
  show ?thesis
    using c0 c1 c2 c3 by (intro conjI)
qed

subsection \<open>The two boolean normalizations\<close>










subsection \<open>Shutdown\<close>

lemma timed_wait_le: "0 \<le> timeout \<Longrightarrow> timed_wait timeout happens \<le> timeout"
  by (simp add: timed_wait_def split: option.splits)

lemma disable_waits:
  "completion_wait (disable sched s) \<le> 2 \<and> join_wait (disable sched s) \<le> 2"
  using timed_wait_le [of 2]
  by (simp add: disable_def Let_def split: prod.splits)

lemma disable_unresponsive:
  assumes "should_run s" and "thread_started s \<noteq> None"
    and "completes_after sched = None" and "exits_after sched = None"
  shows "completion_wait (disable sched s) = 2 \<and> join_wait (disable sched s) = 2"
  using assms by (simp add: disable_def Let_def timed_wait_def)

text \<open>
  Claim C8, as the code has it. The wait of \<^verbatim>\<open>disable\<close> for the completion of the
  shutdown never exceeds 2 seconds, but the call then joins the background thread for up
  to 2 seconds more: it returns within 4 seconds, and against a scheduler that does not
  respond it blocks for the whole 4. A call on a listener that is not enabled does not
  block.
\<close>

theorem disable_bounded:
  "completion_wait (disable sched s) \<le> 2
   \<and> join_wait (disable sched s) \<le> 2
   \<and> blocked_time (disable sched s) \<le> 4
   \<and> (should_run s \<and> thread_started s \<noteq> None
        \<and> completes_after sched = None \<and> exits_after sched = None
        \<longrightarrow> blocked_time (disable sched s) = 4)
   \<and> (\<not> should_run s \<longrightarrow> blocked_time (disable sched s) = 0)"
proof -
  have waits: "completion_wait (disable sched s) \<le> 2 \<and> join_wait (disable sched s) \<le> 2"
    by (rule disable_waits)
  then have total: "blocked_time (disable sched s) \<le> 4"
    by (simp add: blocked_time_def)
  have stuck: "should_run s \<and> thread_started s \<noteq> None
        \<and> completes_after sched = None \<and> exits_after sched = None
        \<Longrightarrow> blocked_time (disable sched s) = 4"
    using disable_unresponsive [of s sched] by (simp add: blocked_time_def)
  have idle: "\<not> should_run s \<Longrightarrow> blocked_time (disable sched s) = 0"
    by (simp add: blocked_time_def disable_def)
  show ?thesis
    using waits total stuck idle by blast
qed



lemma enabled_listener_fields:
  "should_run enabled_listener" "thread_started enabled_listener = Some (''127.0.0.1'', 9002, 5)"
  "loop_running enabled_listener" "listener_enabled enabled_listener"
  by (simp_all add: enabled_listener_def init_listener_def enable_def main_loop_turn_def
      start_listener_def Let_def)

text \<open>An enabled listener whose scheduler does not respond: \<^verbatim>\<open>disable\<close> blocks for 4
  seconds, not 2.\<close>

theorem disable_blocks_four_seconds:
  "blocked_time (disable unresponsive enabled_listener) = 4
   \<and> \<not> blocked_time (disable unresponsive enabled_listener) \<le> 2
   \<and> completion_wait (disable unresponsive enabled_listener) = 2
   \<and> join_wait (disable unresponsive enabled_listener) = 2"
  by (simp add: blocked_time_def disable_def Let_def timed_wait_def enabled_listener_fields
      unresponsive_def)

theorem disable_bounded_witness:
  "should_run enabled_listener \<and> thread_started enabled_listener \<noteq> None
   \<and> completes_after unresponsive = None \<and> exits_after unresponsive = None
   \<and> blocked_time (disable unresponsive enabled_listener) = 4
   \<and> blocked_time (disable unresponsive init_listener) = 0"
proof -
  have pre: "should_run enabled_listener \<and> thread_started enabled_listener \<noteq> None
      \<and> completes_after unresponsive = None \<and> exits_after unresponsive = None"
    by (simp add: enabled_listener_fields unresponsive_def)
  have idle: "\<not> should_run init_listener"
    by (simp add: init_listener_def)
  have stuck: "blocked_time (disable unresponsive enabled_listener) = 4"
    using disable_bounded [of unresponsive enabled_listener] pre by blast
  have none: "blocked_time (disable unresponsive init_listener) = 0"
    using disable_bounded [of unresponsive init_listener] idle by blast
  show ?thesis
    using pre stuck none by blast
qed

subsection \<open>Enabling\<close>

lemma enable_again:
  "should_run s \<Longrightarrow> enable listen_ip listen_port retry_interval s = (s, [Log AlreadyEnabled])"
  by (simp add: enable_def)

lemma run_Cons_fst: "fst (run (st # sts) s) = fst (run sts (fst (run_step st s)))"
  by (simp add: Let_def split: prod.splits)

lemma run_Cons_snd:
  "snd (run (st # sts) s) = snd (run_step st s) @ snd (run sts (fst (run_step st s)))"
  by (simp add: Let_def split: prod.splits)

lemma run_append_fst: "fst (run (xs @ ys) s) = fst (run ys (fst (run xs s)))"
proof (induction xs arbitrary: s)
  case Nil
  then show ?case by simp
next
  case (Cons x xs)
  show ?case
    unfolding append_Cons run_Cons_fst by (rule Cons.IH)
qed

lemma run_append_snd:
  "snd (run (xs @ ys) s) = snd (run xs s) @ snd (run ys (fst (run xs s)))"
proof (induction xs arbitrary: s)
  case Nil
  then show ?case by simp
next
  case (Cons x xs)
  show ?case
    unfolding append_Cons run_Cons_snd run_Cons_fst Cons.IH by simp
qed

lemma bind_attempts_append:
  "bind_attempts (xs @ ys) = bind_attempts xs + bind_attempts ys"
  by (simp add: bind_attempts_def)

lemma threads_started_append:
  "threads_started (xs @ ys) = threads_started xs + threads_started ys"
  by (simp add: threads_started_def)

lemma bound_step:
  assumes "should_run s" and "listener_enabled s" and "thread_started s \<noteq> None"
  shows "should_run (fst (run_step st s)) \<and> listener_enabled (fst (run_step st s))
       \<and> thread_started (fst (run_step st s)) \<noteq> None
       \<and> bind_attempts (snd (run_step st s)) = 0 \<and> threads_started (snd (run_step st s)) = 0"
  using assms
  by (cases st)
    (auto simp: enable_def main_loop_turn_def Let_def bind_attempts_def threads_started_def)

lemma bound_run:
  assumes "should_run s" and "listener_enabled s" and "thread_started s \<noteq> None"
  shows "bind_attempts (snd (run sts s)) = 0 \<and> threads_started (snd (run sts s)) = 0"
  using assms
proof (induction sts arbitrary: s)
  case Nil
  then show ?case
    by (simp add: bind_attempts_def threads_started_def)
next
  case (Cons st sts)
  note step = bound_step [OF Cons.prems, of st]
  have later: "bind_attempts (snd (run sts (fst (run_step st s)))) = 0
      \<and> threads_started (snd (run sts (fst (run_step st s)))) = 0"
    using Cons.IH [of "fst (run_step st s)"] step by simp
  show ?case
    unfolding run_Cons_snd bind_attempts_append threads_started_append
    using step later by simp
qed

lemma enables_only:
  assumes "should_run s" and "\<forall>st \<in> set pre. \<not> is_turn st"
  shows "fst (run pre s) = s \<and> bind_attempts (snd (run pre s)) = 0
       \<and> threads_started (snd (run pre s)) = 0"
  using assms
proof (induction pre)
  case Nil
  then show ?case
    by (simp add: bind_attempts_def threads_started_def)
next
  case (Cons st pre)
  then obtain listen_ip listen_port retry_interval
    where st: "st = CallEnable listen_ip listen_port retry_interval"
    by (cases st) auto
  have step: "run_step st s = (s, [Log AlreadyEnabled])"
    using Cons.prems(1) by (simp add: st enable_again)
  have later: "fst (run pre s) = s \<and> bind_attempts (snd (run pre s)) = 0
      \<and> threads_started (snd (run pre s)) = 0"
    using Cons by simp
  show ?case
    unfolding run_Cons_snd run_Cons_fst bind_attempts_append threads_started_append step
    using later by (simp add: bind_attempts_def threads_started_def)
qed

lemma first_turn:
  assumes "should_run s" and "\<not> listener_enabled s"
    and "thread_started s = Some (listen_ip, listen_port, retry_interval)"
  shows "should_run (fst (main_loop_turn True s)) \<and> listener_enabled (fst (main_loop_turn True s))
       \<and> thread_started (fst (main_loop_turn True s)) \<noteq> None
       \<and> snd (main_loop_turn True s) =
           [Log AttemptingStartup, BindAttempt listen_ip listen_port True, Log ListenerRunning]"
  using assms by (simp add: main_loop_turn_def start_listener_def Let_def)

text \<open>
  Claim C9. \<^verbatim>\<open>enable\<close> on a listener that is already enabled changes nothing and logs
  one diagnostic. So after a first \<^verbatim>\<open>enable\<close>, whatever further calls of \<^verbatim>\<open>enable\<close>
  come before the first turn of the background loop and whatever calls and turns come
  after it, one thread has been started and, when the first bind succeeds, the endpoint
  has been bound exactly once; two consecutive calls and one turn give the trace shown.
\<close>

theorem enable_idempotent:
  assumes "\<forall>st \<in> set pre. \<not> is_turn st"
  shows "(should_run s \<longrightarrow> enable other_ip other_port other_interval s = (s, [Log AlreadyEnabled]))
       \<and> bind_attempts (snd (run (CallEnable listen_ip listen_port retry_interval
             # pre @ Turn True # rest) init_listener)) = 1
       \<and> threads_started (snd (run (CallEnable listen_ip listen_port retry_interval
             # pre @ Turn True # rest) init_listener)) = 1
       \<and> snd (run [CallEnable listen_ip listen_port retry_interval,
                    CallEnable listen_ip listen_port retry_interval, Turn True] init_listener)
           = [ThreadStart, Log LoopStarted, Log AlreadyEnabled, Log AttemptingStartup,
              BindAttempt listen_ip listen_port True, Log ListenerRunning]"
proof -
  define s1 where "s1 = init_listener\<lparr>should_run := True,
      thread_started := Some (listen_ip, listen_port, retry_interval)\<rparr>"
  have first: "run_step (CallEnable listen_ip listen_port retry_interval) init_listener
      = (s1, [ThreadStart, Log LoopStarted])"
    by (simp add: enable_def init_listener_def s1_def)
  have s1: "should_run s1" "\<not> listener_enabled s1"
    "thread_started s1 = Some (listen_ip, listen_port, retry_interval)"
    by (simp_all add: s1_def init_listener_def)
  have pre: "fst (run pre s1) = s1 \<and> bind_attempts (snd (run pre s1)) = 0
      \<and> threads_started (snd (run pre s1)) = 0"
    using enables_only [OF s1(1) assms] .
  define s2 where "s2 = fst (main_loop_turn True s1)"
  have turn: "should_run s2 \<and> listener_enabled s2 \<and> thread_started s2 \<noteq> None
      \<and> snd (main_loop_turn True s1) =
          [Log AttemptingStartup, BindAttempt listen_ip listen_port True, Log ListenerRunning]"
    unfolding s2_def using first_turn [OF s1] .
  have rest: "bind_attempts (snd (run rest s2)) = 0 \<and> threads_started (snd (run rest s2)) = 0"
    using bound_run [of s2 rest] turn by simp
  have turn_counts: "bind_attempts (snd (main_loop_turn True s1)) = 1
      \<and> threads_started (snd (main_loop_turn True s1)) = 0"
    using turn by (simp add: bind_attempts_def threads_started_def)
  have tail: "bind_attempts (snd (run (Turn True # rest) s1)) = 1
      \<and> threads_started (snd (run (Turn True # rest) s1)) = 0"
    unfolding run_Cons_snd bind_attempts_append threads_started_append
    using turn_counts rest by (simp add: s2_def)
  have middle: "bind_attempts (snd (run (pre @ Turn True # rest) s1)) = 1
      \<and> threads_started (snd (run (pre @ Turn True # rest) s1)) = 0"
    unfolding run_append_snd bind_attempts_append threads_started_append
    using pre tail by simp
  have counts: "bind_attempts (snd (run (CallEnable listen_ip listen_port retry_interval
        # pre @ Turn True # rest) init_listener)) = 1
      \<and> threads_started (snd (run (CallEnable listen_ip listen_port retry_interval
        # pre @ Turn True # rest) init_listener)) = 1"
    unfolding run_Cons_snd bind_attempts_append threads_started_append first
    using middle by (simp add: bind_attempts_def threads_started_def)
  have twice: "snd (run [CallEnable listen_ip listen_port retry_interval,
        CallEnable listen_ip listen_port retry_interval, Turn True] init_listener)
      = [ThreadStart, Log LoopStarted, Log AlreadyEnabled, Log AttemptingStartup,
         BindAttempt listen_ip listen_port True, Log ListenerRunning]"
    by (simp add: enable_def init_listener_def main_loop_turn_def start_listener_def Let_def)
  show ?thesis
    using counts twice enable_again [of s other_ip other_port other_interval] by blast
qed

theorem enable_idempotent_witness:
  "bind_attempts (snd (run [CallEnable ''127.0.0.1'' 9002 5, CallEnable ''127.0.0.1'' 9002 5,
       Turn True, Turn False, CallEnable ''127.0.0.1'' 9000 5, Turn True] init_listener)) = 1
   \<and> threads_started (snd (run [CallEnable ''127.0.0.1'' 9002 5, CallEnable ''127.0.0.1'' 9002 5,
       Turn True, Turn False, CallEnable ''127.0.0.1'' 9000 5, Turn True] init_listener)) = 1"
proof -
  have pre: "\<forall>st \<in> set [CallEnable ''127.0.0.1'' 9002 5]. \<not> is_turn st"
    by simp
  note inst = enable_idempotent [OF pre, of init_listener "[]" 0 0 "''127.0.0.1''" 9002 5
      "[Turn False, CallEnable ''127.0.0.1'' 9000 5, Turn True]"]
  have counts: "bind_attempts (snd (run (CallEnable ''127.0.0.1'' 9002 5
        # [CallEnable ''127.0.0.1'' 9002 5] @ Turn True
        # [Turn False, CallEnable ''127.0.0.1'' 9000 5, Turn True]) init_listener)) = 1
      \<and> threads_started (snd (run (CallEnable ''127.0.0.1'' 9002 5
        # [CallEnable ''127.0.0.1'' 9002 5] @ Turn True
        # [Turn False, CallEnable ''127.0.0.1'' 9000 5, Turn True]) init_listener)) = 1"
    using inst by blast
  show ?thesis
    using counts by (simp only: append_Cons append_Nil)
qed

end
